theory Spec2Isabelle
  imports Main
begin

section \<open>JavaScript values\<close>

text \<open>
  The tracing code receives loosely typed data from the workflow engine. A value is
  modelled as plain data: no getters, proxies or prototype overrides. Numbers are the
  integers; strings are sequences of UTF-16 code units, and this development covers the
  code units below 256 (the type \<open>char\<close>), on which lower-casing, case-insensitive
  matching and white space are modelled exactly as ECMAScript defines them. An object is
  its list of own properties in insertion order; an instance of \<open>Error\<close> is its name and
  its message. Any value can be thrown.
\<close>

datatype jsval =
    JUndefined
  | JNull
  | JBool bool
  | JNum int
  | JStr string
  | JArr "jsval list"
  | JObj "(string \<times> jsval) list"
  | JError string string

text \<open>What the runtime itself throws on plain data: a \<open>TypeError\<close> with its message.\<close>

definition TypeError :: "string \<Rightarrow> jsval" where
  "TypeError msg = JError ''TypeError'' msg"

text \<open>ToBoolean: the test behind \<open>!x\<close>, \<open>x || y\<close> and \<open>if (x)\<close>.\<close>

fun truthy :: "jsval \<Rightarrow> bool" where
  "truthy JUndefined = False"
| "truthy JNull = False"
| "truthy (JBool b) = b"
| "truthy (JNum n) = (n \<noteq> 0)"
| "truthy (JStr s) = (s \<noteq> [])"
| "truthy (JArr xs) = True"
| "truthy (JObj ps) = True"
| "truthy (JError name msg) = True"

text \<open>\<open>a || b\<close> on values.\<close>

definition js_or :: "jsval \<Rightarrow> jsval \<Rightarrow> jsval" where
  "js_or a b = (if truthy a then a else b)"

text \<open>
  Reading a property. Only fixed keys that no built-in prototype defines are read by the
  source, apart from \<open>length\<close>, which arrays and strings own.
\<close>

fun ownProp :: "jsval \<Rightarrow> string \<Rightarrow> jsval" where
  "ownProp (JObj ps) k = (case map_of ps k of Some v \<Rightarrow> v | None \<Rightarrow> JUndefined)"
| "ownProp (JArr xs) k = (if k = ''length'' then JNum (int (length xs)) else JUndefined)"
| "ownProp (JStr s) k = (if k = ''length'' then JNum (int (length s)) else JUndefined)"
| "ownProp (JError name msg) k =
     (if k = ''message'' then JStr msg else if k = ''name'' then JStr name else JUndefined)"
| "ownProp v k = JUndefined"

text \<open>\<open>v.k\<close>: a \<open>TypeError\<close> on \<open>null\<close> and \<open>undefined\<close>.\<close>

definition getProp :: "jsval \<Rightarrow> string \<Rightarrow> jsval + jsval" where
  "getProp v k =
     (if v = JUndefined \<or> v = JNull
      then Inl (TypeError (''Cannot read properties of ''
                            @ (if v = JNull then ''null'' else ''undefined'')
                            @ '' (reading '' @ k @ '')''))
      else Inr (ownProp v k))"

text \<open>\<open>v?.k\<close>: \<open>undefined\<close> on \<open>null\<close> and \<open>undefined\<close>.\<close>

definition optProp :: "jsval \<Rightarrow> string \<Rightarrow> jsval" where
  "optProp v k = (if v = JUndefined \<or> v = JNull then JUndefined else ownProp v k)"

section \<open>Strings: lower-casing and the patterns of the classifier\<close>

definition ascii_upper :: string where
  "ascii_upper = ''ABCDEFGHIJKLMNOPQRSTUVWXYZ''"

definition ascii_lower :: string where
  "ascii_lower = ''abcdefghijklmnopqrstuvwxyz''"

definition ascii_digit :: string where
  "ascii_digit = ''0123456789''"

text \<open>The cased letters of the code units 128 to 255: U+00C0 to U+00DE without U+00D7.\<close>

definition latin_upper :: string where
  "latin_upper =
     [CHR 0xC0, CHR 0xC1, CHR 0xC2, CHR 0xC3, CHR 0xC4, CHR 0xC5, CHR 0xC6, CHR 0xC7,
      CHR 0xC8, CHR 0xC9, CHR 0xCA, CHR 0xCB, CHR 0xCC, CHR 0xCD, CHR 0xCE, CHR 0xCF,
      CHR 0xD0, CHR 0xD1, CHR 0xD2, CHR 0xD3, CHR 0xD4, CHR 0xD5, CHR 0xD6,
      CHR 0xD8, CHR 0xD9, CHR 0xDA, CHR 0xDB, CHR 0xDC, CHR 0xDD, CHR 0xDE]"

definition latin_lower :: string where
  "latin_lower =
     [CHR 0xE0, CHR 0xE1, CHR 0xE2, CHR 0xE3, CHR 0xE4, CHR 0xE5, CHR 0xE6, CHR 0xE7,
      CHR 0xE8, CHR 0xE9, CHR 0xEA, CHR 0xEB, CHR 0xEC, CHR 0xED, CHR 0xEE, CHR 0xEF,
      CHR 0xF0, CHR 0xF1, CHR 0xF2, CHR 0xF3, CHR 0xF4, CHR 0xF5, CHR 0xF6,
      CHR 0xF8, CHR 0xF9, CHR 0xFA, CHR 0xFB, CHR 0xFC, CHR 0xFD, CHR 0xFE]"

definition lower_cu :: "char \<Rightarrow> char" where
  "lower_cu c =
     (case map_of (zip (ascii_upper @ latin_upper) (ascii_lower @ latin_lower)) c of
        Some l \<Rightarrow> l | None \<Rightarrow> c)"

text \<open>\<open>String.prototype.toLowerCase\<close>.\<close>

definition toLowerCase :: "string \<Rightarrow> string" where
  "toLowerCase s = map lower_cu s"

text \<open>
  Canonicalize of a pattern without the \<open>u\<close> flag: the upper-case code unit. A code
  unit from 128 on never canonicalises to an ASCII one; U+00B5, U+00DF and U+00FF have no
  single upper-case code unit below 256 and none maps onto them, so leaving them fixed
  gives the same equalities.
\<close>

definition canonicalize :: "char \<Rightarrow> char" where
  "canonicalize c =
     (case map_of (zip (ascii_lower @ latin_lower) (ascii_upper @ latin_upper)) c of
        Some u \<Rightarrow> u | None \<Rightarrow> c)"

text \<open>
  The patterns of \<open>REGEX_RULES\<close> are alternations of sequences of literal characters
  and the class \<open>[a-z]\<close>, one alternative anchored with \<open>^\<close>; each has or lacks the
  flag \<open>i\<close>.
\<close>

datatype atom = Lit char | LowerClass

datatype alternative = Alt (anchored: bool) (atoms: "atom list")

datatype regex = Regex (ignoreCase: bool) (alternatives: "alternative list")

fun atom_matches :: "bool \<Rightarrow> atom \<Rightarrow> char \<Rightarrow> bool" where
  "atom_matches ic (Lit p) c = (if ic then canonicalize c = canonicalize p else c = p)"
| "atom_matches ic LowerClass c =
     (if ic then canonicalize c \<in> canonicalize ` set ascii_lower else c \<in> set ascii_lower)"

text \<open>The atoms match a prefix of the input.\<close>

fun matches_here :: "bool \<Rightarrow> atom list \<Rightarrow> string \<Rightarrow> bool" where
  "matches_here ic [] s = True"
| "matches_here ic (a # as) [] = False"
| "matches_here ic (a # as) (c # s) = (atom_matches ic a c \<and> matches_here ic as s)"

text \<open>The atoms match at some position of the input, scanning from the left.\<close>

fun matches_somewhere :: "bool \<Rightarrow> atom list \<Rightarrow> string \<Rightarrow> bool" where
  "matches_somewhere ic as [] = matches_here ic as []"
| "matches_somewhere ic as (c # s) =
     (matches_here ic as (c # s) \<or> matches_somewhere ic as s)"

definition alt_test :: "bool \<Rightarrow> alternative \<Rightarrow> string \<Rightarrow> bool" where
  "alt_test ic a s =
     (if anchored a then matches_here ic (atoms a) s else matches_somewhere ic (atoms a) s)"

text \<open>\<open>RegExp.prototype.test\<close> for these patterns (none has the flag \<open>g\<close>).\<close>

definition regex_test :: "regex \<Rightarrow> string \<Rightarrow> bool" where
  "regex_test r s = list_ex (\<lambda>a. alt_test (ignoreCase r) a s) (alternatives r)"

definition lit :: "string \<Rightarrow> alternative" where
  "lit w = Alt False (map Lit w)"

section \<open>The span-kind classifier (openinference-mapper.js)\<close>

definition SPAN_KINDS :: "string list" where
  "SPAN_KINDS =
     [''LLM'', ''EMBEDDING'', ''CHAIN'', ''RETRIEVER'', ''RERANKER'', ''TOOL'', ''AGENT'',
      ''GUARDRAIL'', ''EVALUATOR'', ''PROMPT'']"

text \<open>\<open>EXACT_SETS\<close>, in the order of \<open>Object.entries\<close>.\<close>

definition EXACT_SETS :: "(string \<times> string list) list" where
  "EXACT_SETS =
     [(''AGENT'', [''Agent'', ''AgentTool'']),
      (''LLM'', [''LmChatOpenAi'', ''LmOpenAi'', ''OpenAi'', ''Anthropic'', ''GoogleGemini'',
         ''Groq'', ''Perplexity'', ''LmChatAnthropic'', ''LmChatGoogleGemini'',
         ''LmChatMistralCloud'', ''LmChatOpenRouter'', ''LmChatXAiGrok'', ''OpenAiAssistant'']),
      (''EMBEDDING'', [''EmbeddingsAwsBedrock'', ''EmbeddingsAzureOpenAi'', ''EmbeddingsCohere'',
         ''EmbeddingsGoogleGemini'', ''EmbeddingsGoogleVertex'',
         ''EmbeddingsHuggingFaceInference'', ''EmbeddingsMistralCloud'', ''EmbeddingsOllama'',
         ''EmbeddingsOpenAi'']),
      (''RETRIEVER'', [''RetrieverContextualCompression'', ''RetrieverMultiQuery'',
         ''RetrieverVectorStore'', ''RetrieverWorkflow'', ''MemoryChatRetriever'',
         ''VectorStoreInMemory'', ''VectorStoreInMemoryInsert'', ''VectorStoreInMemoryLoad'',
         ''VectorStoreMilvus'', ''VectorStoreMongoDBAtlas'', ''VectorStorePGVector'',
         ''VectorStorePinecone'', ''VectorStorePineconeInsert'', ''VectorStorePineconeLoad'',
         ''VectorStoreQdrant'', ''VectorStoreSupabase'', ''VectorStoreSupabaseInsert'',
         ''VectorStoreSupabaseLoad'', ''VectorStoreWeaviate'', ''VectorStoreZep'',
         ''VectorStoreZepInsert'', ''VectorStoreZepLoad'']),
      (''RERANKER'', [''RerankerCohere'']),
      (''EVALUATOR'', [''SentimentAnalysis'', ''TextClassifier'', ''InformationExtractor'',
         ''OutputParserAutofixing'']),
      (''GUARDRAIL'', [''GooglePerspective'', ''AwsRekognition'']),
      (''CHAIN'', [''ChainLlm'', ''ChainRetrievalQa'', ''ChainSummarization'', ''ToolWorkflow'',
         ''ToolExecutor'', ''ModelSelector'', ''OutputParserStructured'',
         ''OutputParserItemList'', ''TextSplitterCharacterTextSplitter'',
         ''TextSplitterRecursiveCharacterTextSplitter'', ''TextSplitterTokenSplitter'',
         ''ToolThink''])]"

text \<open>The patterns of the first rule, \<open>/trigger/i\<close>, and of the rule for \<open>LLM\<close>.\<close>

definition trigger_pattern :: regex where
  "trigger_pattern = Regex True [lit ''trigger'']"

definition llm_pattern :: regex where
  "llm_pattern =
     Regex True
       [lit ''lmchat'', Alt True [Lit CHR ''l'', Lit CHR ''m'', LowerClass], lit ''chat'',
        lit ''openai'', lit ''anthropic'', lit ''gemini'', lit ''mistral'', lit ''groq'',
        lit ''cohere'']"

text \<open>\<open>REGEX_RULES\<close>, in order; only the rule for \<open>TOOL\<close> lacks the flag \<open>i\<close>.\<close>

definition REGEX_RULES :: "(string \<times> regex) list" where
  "REGEX_RULES =
     [(''CHAIN'', trigger_pattern),
      (''AGENT'', Regex True [lit ''agent'']),
      (''EMBEDDING'', Regex True [lit ''embedding'']),
      (''RETRIEVER'', Regex True [lit ''retriev'', lit ''vectorstore'']),
      (''RERANKER'', Regex True [lit ''rerank'']),
      (''LLM'', llm_pattern),
      (''TOOL'', Regex False [lit ''tool'']),
      (''CHAIN'', Regex True
         [lit ''chain'', lit ''textsplitter'', lit ''parser'', lit ''memory'', lit ''workflow'']),
      (''EVALUATOR'', Regex True [lit ''classif'', lit ''sentiment'', lit ''extract'']),
      (''GUARDRAIL'', Regex True
         [lit ''perspective'', lit ''rekognition'', lit ''moderation'', lit ''guardrail''])]"

definition INTERNAL_LOGIC :: "string list" where
  "INTERNAL_LOGIC =
     [''If'', ''Switch'', ''Set'', ''Move'', ''Rename'', ''Wait'', ''WaitUntil'', ''Function'',
      ''FunctionItem'', ''Code'', ''NoOp'', ''ExecuteWorkflow'', ''SubworkflowTo'']"

text \<open>\<open>categoryFallback\<close>: the \<open>switch\<close> compares with \<open>===\<close>; \<open>None\<close> is \<open>undefined\<close>.\<close>

definition categoryFallback :: "string \<Rightarrow> jsval \<Rightarrow> string option" where
  "categoryFallback type category =
     (if category = JStr ''Trigger Nodes'' then Some ''CHAIN''
      else if category = JStr ''Transform Nodes'' then Some ''CHAIN''
      else if category = JStr ''AI/LangChain Nodes'' then Some ''CHAIN''
      else if category = JStr ''Core Nodes'' then
        (if type \<in> set INTERNAL_LOGIC then Some ''CHAIN''
         else if type = ''Schedule'' \<or> type = ''Cron'' then Some ''CHAIN''
         else Some ''TOOL'')
      else None)"

text \<open>Tier 1, the loop over \<open>EXACT_SETS\<close>: the first set that has the identifier.\<close>

fun exactTier :: "(string \<times> string list) list \<Rightarrow> string \<Rightarrow> string option" where
  "exactTier [] original = None"
| "exactTier ((spanKind, ids) # rest) original =
     (if original \<in> set ids then Some spanKind else exactTier rest original)"

text \<open>Tier 2, the loop over \<open>REGEX_RULES\<close>: the first rule whose pattern matches.\<close>

fun regexTier :: "(string \<times> regex) list \<Rightarrow> string \<Rightarrow> string option" where
  "regexTier [] lower = None"
| "regexTier ((kind, pattern) # rest) lower =
     (if regex_test pattern lower then Some kind else regexTier rest lower)"

text \<open>
  \<open>mapNodeToSpanKind\<close>; \<open>None\<close> is the result \<open>undefined\<close>. The last test,
  \<open>if (fromCategory)\<close>, asks for a non-empty string.
\<close>

definition mapNodeToSpanKind :: "jsval \<Rightarrow> jsval \<Rightarrow> string option" where
  "mapNodeToSpanKind nodeType nodeAttributes =
     (case nodeType of
        JStr original \<Rightarrow>
          if original = [] then None
          else
            (case exactTier EXACT_SETS original of
               Some spanKind \<Rightarrow> Some spanKind
             | None \<Rightarrow>
                 (case regexTier REGEX_RULES (toLowerCase original) of
                    Some kind \<Rightarrow> Some kind
                  | None \<Rightarrow>
                      (let category = js_or (optProp nodeAttributes ''n8n.node.category'')
                                            (optProp nodeAttributes ''n8n.node.category_raw'')
                       in case categoryFallback original category of
                            Some fromCategory \<Rightarrow>
                              if fromCategory \<noteq> [] then Some fromCategory else None
                          | None \<Rightarrow> None)))
      | _ \<Rightarrow> None)"

text \<open>
  The caller in \<open>runNode\<close>: the kind is looked up when the mapping is enabled, and
  \<open>CHAIN\<close> stands in for no match.
\<close>

definition nodeSpanKind :: "bool \<Rightarrow> jsval \<Rightarrow> jsval \<Rightarrow> string" where
  "nodeSpanKind MAP_OPENINFERENCE_SPAN_KINDS nodeType n8nNodeAttrs =
     (case (if MAP_OPENINFERENCE_SPAN_KINDS then mapNodeToSpanKind nodeType n8nNodeAttrs
            else None) of
        Some spanKind \<Rightarrow> if spanKind \<noteq> [] then spanKind else ''CHAIN''
      | None \<Rightarrow> ''CHAIN'')"

section \<open>Conversion to strings\<close>

text \<open>The decimal digits of a natural number, as number-to-string conversion writes them.\<close>

fun digits :: "nat \<Rightarrow> string" where
  "digits n =
     (if n < 10 then [ascii_digit ! n] else digits (n div 10) @ [ascii_digit ! (n mod 10)])"

declare digits.simps [simp del]

definition int_ToString :: "int \<Rightarrow> string" where
  "int_ToString i = (if i < 0 then CHR ''-'' # digits (nat (- i)) else digits (nat i))"

text \<open>\<open>Array.prototype.join\<close> on strings already converted.\<close>

fun join :: "string \<Rightarrow> string list \<Rightarrow> string" where
  "join sep [] = []"
| "join sep [x] = x"
| "join sep (x # y # ys) = x @ sep @ join sep (y # ys)"

text \<open>
  \<open>String(v)\<close> on plain data: an array joins its elements with commas, \<open>null\<close> and
  \<open>undefined\<close> elements as empty strings; an object is \<open>[object Object]\<close>; an error
  is its name and its message, joined by a colon when neither is empty.
\<close>

fun js_ToString :: "jsval \<Rightarrow> string" where
  "js_ToString JUndefined = ''undefined''"
| "js_ToString JNull = ''null''"
| "js_ToString (JBool b) = (if b then ''true'' else ''false'')"
| "js_ToString (JNum n) = int_ToString n"
| "js_ToString (JStr s) = s"
| "js_ToString (JArr xs) =
     join '','' (map (\<lambda>x. if x = JUndefined \<or> x = JNull then [] else js_ToString x) xs)"
| "js_ToString (JObj ps) = ''[object Object]''"
| "js_ToString (JError name msg) =
     (if name = [] then msg else if msg = [] then name else name @ '': '' @ msg)"

text \<open>
  The number a sequence of decimal digits denotes, to say what a rendered count states.
\<close>

definition digit_value :: "char \<Rightarrow> nat" where
  "digit_value c = (case map_of (zip ascii_digit [0 ..< 10]) c of Some d \<Rightarrow> d | None \<Rightarrow> 0)"

definition decimal_value :: "string \<Rightarrow> nat" where
  "decimal_value s = foldl (\<lambda>acc c. 10 * acc + digit_value c) 0 s"

section \<open>Payload truncation (tracing.js, truncateIO)\<close>

text \<open>
  \<open>str.slice(0, end)\<close>: a negative \<open>end\<close> counts from the end of the string.
\<close>

definition slice0 :: "string \<Rightarrow> int \<Rightarrow> string" where
  "slice0 str end = (if end < 0 then take (nat (int (length str) + end)) str else take (nat end) str)"

text \<open>
  \<open>truncateIO\<close>. \<open>MAX_IO_CHARS\<close> is the module constant read with \<open>parseInt\<close> from
  the environment (12000 unless configured), taken here as an integer parameter; a
  configuration that does not parse to a number is outside the model.
\<close>

definition truncateIO :: "int \<Rightarrow> jsval \<Rightarrow> string" where
  "truncateIO MAX_IO_CHARS str0 =
     (if str0 = JUndefined \<or> str0 = JNull then []
      else
        (let str = js_ToString str0
         in if int (length str) \<le> MAX_IO_CHARS then str
            else slice0 str MAX_IO_CHARS @ ''...[truncated ''
                   @ int_ToString (int (length str) - MAX_IO_CHARS) @ '' chars]''))"

section \<open>Span-name segments (tracing.js, sanitizeSegment)\<close>

text \<open>
  White space and line terminators among the code units below 256: what \<open>trim\<close>
  removes and what \<open>\s\<close> matches.
\<close>

definition is_space :: "char \<Rightarrow> bool" where
  "is_space c \<longleftrightarrow> c \<in> set [CHR 0x09, CHR 0x0A, CHR 0x0B, CHR 0x0C, CHR 0x0D, CHR 0x20, CHR 0xA0]"

definition trim :: "string \<Rightarrow> string" where
  "trim s = rev (dropWhile is_space (rev (dropWhile is_space s)))"

text \<open>\<open>.replace(/\s+/g, '-')\<close>: each maximal run of white space becomes one hyphen.\<close>

function replace_space_runs :: "string \<Rightarrow> string" where
  "replace_space_runs [] = []"
| "replace_space_runs (c # s) =
     (if is_space c then CHR ''-'' # replace_space_runs (dropWhile is_space s)
      else c # replace_space_runs s)"
  by pat_completeness auto
termination
  by (relation "measure length") (auto simp: length_dropWhile_le less_Suc_eq_le)

text \<open>The class \<open>[a-zA-Z0-9._-]\<close>.\<close>

definition segment_char :: "char \<Rightarrow> bool" where
  "segment_char c \<longleftrightarrow> c \<in> set (ascii_lower @ ascii_upper @ ascii_digit @ ''._-'')"

text \<open>\<open>.replace(/[^a-zA-Z0-9._-]/g, '-')\<close>: every other character becomes a hyphen.\<close>

definition replace_other_chars :: "string \<Rightarrow> string" where
  "replace_other_chars s = map (\<lambda>c. if segment_char c then c else CHR ''-'') s"



section \<open>Control flow: try, catch and iteration\<close>

text \<open>
  A computation that may throw has a result in \<open>jsval + 'a\<close>, \<open>Inl\<close> the value
  thrown. \<open>try { body } catch (e) { handler }\<close> runs the handler on what the body
  throws; the handler may throw itself.
\<close>

definition try_catch :: "jsval + 'a \<Rightarrow> (jsval \<Rightarrow> jsval + 'a) \<Rightarrow> jsval + 'a" where
  "try_catch body handler = (case body of Inl e \<Rightarrow> handler e | Inr v \<Rightarrow> Inr v)"

text \<open>
  \<open>for (const x of v)\<close>: the elements of an array, the characters of a string, a
  \<open>TypeError\<close> on anything else. \<open>what\<close> is the source text of \<open>v\<close>, for the message.
\<close>

fun iterate :: "string \<Rightarrow> jsval \<Rightarrow> jsval + jsval list" where
  "iterate what (JArr xs) = Inr xs"
| "iterate what (JStr s) = Inr (map (\<lambda>c. JStr [c]) s)"
| "iterate what v = Inl (TypeError (what @ '' is not iterable''))"



section \<open>Payload extractors (tracing.js)\<close>

text \<open>
  The inner loop of both extractors:
  \<open>for (const item of connection) { if (item?.json) allItems.push(item.json) }\<close>.
\<close>

fun push_items :: "jsval list \<Rightarrow> jsval list \<Rightarrow> jsval list" where
  "push_items [] allItems = allItems"
| "push_items (item # rest) allItems =
     push_items rest
       (if truthy (optProp item ''json'') then allItems @ [optProp item ''json''] else allItems)"

text \<open>
  The outer loop of the input extractor: a falsy connection is skipped, any other is
  iterated.
\<close>

fun input_connections :: "jsval list \<Rightarrow> jsval list \<Rightarrow> jsval + jsval list" where
  "input_connections [] allItems = Inr allItems"
| "input_connections (connection # rest) allItems =
     (if \<not> truthy connection then input_connections rest allItems
      else
        (case iterate ''connection'' connection of
           Inl e \<Rightarrow> Inl e
         | Inr items \<Rightarrow> input_connections rest (push_items items allItems)))"

text \<open>The body of the \<open>try\<close> in \<open>extractNodeInputFromExecutionData\<close>.\<close>

definition extractNodeInput_body :: "jsval \<Rightarrow> jsval + jsval" where
  "extractNodeInput_body executionData =
     (let mainInputs = optProp (optProp executionData ''data'') ''main''
      in if \<not> truthy mainInputs \<or> \<not> truthy (ownProp mainInputs ''length'') then Inr JUndefined
         else
           (case iterate ''mainInputs'' mainInputs of
              Inl e \<Rightarrow> Inl e
            | Inr connections \<Rightarrow>
                (case input_connections connections [] of
                   Inl e \<Rightarrow> Inl e
                 | Inr allItems \<Rightarrow>
                     if length allItems = 0 then Inr JUndefined
                     else if length allItems = 1 then Inr (hd allItems)
                     else Inr (JArr allItems))))"

definition error_record :: "jsval \<Rightarrow> jsval" where
  "error_record e = JObj [(''_error'', JStr (js_ToString e))]"

definition extractNodeInputFromExecutionData :: "jsval \<Rightarrow> jsval + jsval" where
  "extractNodeInputFromExecutionData executionData =
     try_catch (extractNodeInput_body executionData) (\<lambda>e. Inr (error_record e))"









text \<open>
  The input structure as the specification describes it: connection names with their
  item slots, a slot being absent (\<open>null\<close>) or a sequence of items, each item carrying
  one record, an object. \<open>executionData_of\<close> is the value the engine passes for it.
\<close>

type_synonym json_record = "(string \<times> jsval) list"

type_synonym task_data_connections = "(string \<times> json_record list option list) list"

definition slot_value :: "json_record list option \<Rightarrow> jsval" where
  "slot_value slot =
     (case slot of None \<Rightarrow> JNull
      | Some records \<Rightarrow> JArr (map (\<lambda>r. JObj [(''json'', JObj r)]) records))"

definition executionData_of :: "task_data_connections \<Rightarrow> jsval" where
  "executionData_of conns =
     JObj [(''data'', JObj (map (\<lambda>(name, slots). (name, JArr (map slot_value slots))) conns))]"

definition slot_records :: "json_record list option \<Rightarrow> jsval list" where
  "slot_records slot = (case slot of None \<Rightarrow> [] | Some records \<Rightarrow> map JObj records)"

text \<open>One record is returned as it is, several as an array, none as \<open>undefined\<close>.\<close>

definition unwrap_single :: "jsval list \<Rightarrow> jsval" where
  "unwrap_single allItems =
     (case allItems of [] \<Rightarrow> JUndefined | [x] \<Rightarrow> x | _ \<Rightarrow> JArr allItems)"

text \<open>
  The input extractor as the specification words it: every record across every
  connection and slot, in order.
\<close>

definition extractNodeInput_spec :: "task_data_connections \<Rightarrow> jsval" where
  "extractNodeInput_spec conns =
     unwrap_single (concat (map (\<lambda>(name, slots). concat (map slot_records slots)) conns))"

text \<open>The records of the slots of the connection named \<open>main\<close>.\<close>

definition main_records :: "task_data_connections \<Rightarrow> jsval list" where
  "main_records conns =
     (case map_of conns ''main'' of None \<Rightarrow> [] | Some slots \<Rightarrow> concat (map slot_records slots))"

section \<open>The initialization guard (tracing.js, module top level)\<close>

text \<open>
  The process-wide state the guard reads and writes: the flag on \<open>global\<close>, the
  environment variable \<open>__N8N_TRACING_INITIALIZED\<close>, the flag on \<open>process\<close>, and how
  many times the two entry points of \<open>WorkflowExecute.prototype\<close> have been replaced
  by wrappers of what stood there.
\<close>

record process_state =
  global_n8nTracingInitialized :: jsval
  env_N8N_TRACING_INITIALIZED :: "string option"
  process_n8nOtelSDKStarted :: jsval
  wrapper_installations :: nat

definition ALREADY_INITIALIZED :: "process_state \<Rightarrow> bool" where
  "ALREADY_INITIALIZED st =
     truthy (js_or (js_or (global_n8nTracingInitialized st)
                          (JBool (env_N8N_TRACING_INITIALIZED st = Some ''true'')))
                   (process_n8nOtelSDKStarted st))"

text \<open>
  What a load of the module finds around it: the environment variable
  \<open>TRACING_LOG_LEVEL\<close>, and for each step of \<open>initializeTracing\<close> that calls outside
  this repository what that step throws, \<open>None\<close> when it succeeds: the \<open>require\<close> calls
  of the packages at the head of the function, the registration of the
  auto-instrumentations, the \<open>require\<close> of \<open>n8n-core\<close> with the reading of
  \<open>WorkflowExecute.prototype\<close>, and the start of the logger and the SDK after the
  wrappers.
\<close>

record host =
  require_packages :: "jsval option"
  env_TRACING_LOG_LEVEL :: "string option"
  register_instrumentations :: "jsval option"
  require_n8n_core :: "jsval option"
  start_pipeline :: "jsval option"

text \<open>\<open>value.replace(/^['"]|['"]$/g, '')\<close>: one quote at the head and one at the end.\<close>

definition is_quote :: "char \<Rightarrow> bool" where
  "is_quote c \<longleftrightarrow> c = CHR 0x27 \<or> c = CHR 0x22"

definition strip_quotes :: "string \<Rightarrow> string" where
  "strip_quotes s =
     (let s1 = (if s \<noteq> [] \<and> is_quote (hd s) then tl s else s)
      in if s1 \<noteq> [] \<and> is_quote (last s1) then butlast s1 else s1)"

text \<open>
  \<open>getEnv(key, defaultValue, required)\<close>, given the value of \<open>process.env[key]\<close>: a
  variable set to the empty string is not replaced by the default and, when required,
  makes \<open>getEnv\<close> throw.
\<close>

definition getEnv :: "string option \<Rightarrow> string \<Rightarrow> string \<Rightarrow> bool \<Rightarrow> jsval + string" where
  "getEnv env_value key defaultValue required =
     (let v = (case env_value of Some s \<Rightarrow> s | None \<Rightarrow> defaultValue)
      in if v = [] \<and> required
         then Inl (JError ''Error'' (''Required environment variable '' @ key @ '' is not set''))
         else Inr (if v \<noteq> [] then strip_quotes v else defaultValue))"

text \<open>
  \<open>setupN8nOpenTelemetry\<close>: inside its \<open>try\<close> it requires \<open>n8n-core\<close> and replaces
  the two entry points; what fails there is caught and logged, and nothing is installed.
\<close>

definition setupN8nOpenTelemetry :: "host \<Rightarrow> process_state \<Rightarrow> process_state" where
  "setupN8nOpenTelemetry h st =
     (case require_n8n_core h of
        Some e \<Rightarrow> st
      | None \<Rightarrow> st\<lparr>wrapper_installations := wrapper_installations st + 1\<rparr>)"

text \<open>
  \<open>initializeTracing\<close>, as far as the wrappers are concerned, in the order of the
  source: the packages are required, \<open>LOG_LEVEL\<close> is read with \<open>getEnv\<close> (required),
  the auto-instrumentations are registered, \<open>setupN8nOpenTelemetry\<close> runs, and the
  logger and the SDK are started. The result is the state and what the function throws,
  if it throws.
\<close>

definition initializeTracing :: "host \<Rightarrow> process_state \<Rightarrow> process_state \<times> jsval option" where
  "initializeTracing h st =
     (case require_packages h of
        Some e \<Rightarrow> (st, Some e)
      | None \<Rightarrow>
          (case getEnv (env_TRACING_LOG_LEVEL h) ''TRACING_LOG_LEVEL'' ''info'' True of
             Inl e \<Rightarrow> (st, Some e)
           | Inr LOG_LEVEL \<Rightarrow>
               (case register_instrumentations h of
                  Some e \<Rightarrow> (st, Some e)
                | None \<Rightarrow>
                    (let st1 = setupN8nOpenTelemetry h st
                     in case start_pipeline h of
                          Some e \<Rightarrow> (st1, Some e)
                        | None \<Rightarrow> (st1, None)))))"

text \<open>
  Loading the module once: the three flags are set before \<open>initializeTracing\<close> is
  called. The result is the state and what the load throws, if it throws.
\<close>

definition load_module :: "host \<Rightarrow> process_state \<Rightarrow> process_state \<times> jsval option" where
  "load_module h st =
     (if ALREADY_INITIALIZED st then (st, None)
      else initializeTracing h
             (st\<lparr>global_n8nTracingInitialized := JBool True,
                 env_N8N_TRACING_INITIALIZED := Some ''true'',
                 process_n8nOtelSDKStarted := JBool True\<rparr>))"

text \<open>Loading the module several times, each time in the surroundings given.\<close>

fun load_all :: "host list \<Rightarrow> process_state \<Rightarrow> process_state" where
  "load_all [] st = st"
| "load_all (h # hs) st = load_all hs (fst (load_module h st))"

text \<open>A process in which the module has not been loaded.\<close>

definition fresh_process :: process_state where
  "fresh_process =
     \<lparr>global_n8nTracingInitialized = JUndefined, env_N8N_TRACING_INITIALIZED = None,
      process_n8nOtelSDKStarted = JUndefined, wrapper_installations = 0\<rparr>"

text \<open>The surroundings in which \<open>initializeTracing\<close> gets as far as installing the wrappers.\<close>

definition reaches_installation :: "host \<Rightarrow> bool" where
  "reaches_installation h \<longleftrightarrow>
     require_packages h = None \<and> env_TRACING_LOG_LEVEL h \<noteq> Some []
     \<and> register_instrumentations h = None \<and> require_n8n_core h = None"

text \<open>Surroundings in which every step succeeds and the log level is not configured.\<close>

definition working_host :: host where
  "working_host =
     \<lparr>require_packages = None, env_TRACING_LOG_LEVEL = None, register_instrumentations = None,
      require_n8n_core = None, start_pipeline = None\<rparr>"

section \<open>Spans and the two wrapped entry points (tracing.js, setupN8nOpenTelemetry)\<close>

text \<open>
  A span records what the wrappers call on it: attributes set, exceptions recorded, the
  last status set, and how many times \<open>end\<close> was called.
\<close>

datatype span_status = Unset | Ok | Error string

record span =
  spanName :: string
  attributes :: "string \<rightharpoonup> jsval"
  status :: span_status
  exceptions :: "jsval list"
  endCount :: nat

definition startSpan :: "string \<Rightarrow> (string \<rightharpoonup> jsval) \<Rightarrow> span" where
  "startSpan name attrs =
     \<lparr>spanName = name, attributes = attrs, status = Unset, exceptions = [], endCount = 0\<rparr>"

definition setStatus :: "span_status \<Rightarrow> span \<Rightarrow> span" where
  "setStatus st sp = sp\<lparr>status := st\<rparr>"

definition recordException :: "jsval \<Rightarrow> span \<Rightarrow> span" where
  "recordException e sp = sp\<lparr>exceptions := exceptions sp @ [e]\<rparr>"

definition setAttribute :: "string \<Rightarrow> jsval \<Rightarrow> span \<Rightarrow> span" where
  "setAttribute k v sp = sp\<lparr>attributes := (attributes sp)(k \<mapsto> v)\<rparr>"

definition span_end :: "span \<Rightarrow> span" where
  "span_end sp = sp\<lparr>endCount := endCount sp + 1\<rparr>"

text \<open>\<open>span.attributes?.[k]\<close>.\<close>

definition attribute :: "span \<Rightarrow> string \<Rightarrow> jsval" where
  "attribute sp k = (case attributes sp k of Some v \<Rightarrow> v | None \<Rightarrow> JUndefined)"

text \<open>
  What calling the wrapped engine function does: it throws, or it returns a promise that
  is resolved with a result or rejected with a reason.
\<close>

datatype settled = Resolved jsval | Rejected jsval

datatype call_result = Threw jsval | Returned settled

text \<open>\<open>String(err.message || err)\<close>: reading \<open>message\<close> throws on \<open>null\<close> and \<open>undefined\<close>.\<close>

definition errorMessage :: "jsval \<Rightarrow> jsval + string" where
  "errorMessage err =
     (case getProp err ''message'' of
        Inl e \<Rightarrow> Inl e
      | Inr m \<Rightarrow> Inr (js_ToString (js_or m err)))"

text \<open>
  \<open>safeJSONStringify\<close>. \<open>JSON.stringify\<close> is the runtime's encoder, a parameter here:
  any function from values to a string or \<open>undefined\<close> that may throw.
\<close>

definition safeJSONStringify :: "(jsval \<Rightarrow> jsval + jsval) \<Rightarrow> jsval \<Rightarrow> jsval + jsval" where
  "safeJSONStringify JSON_stringify obj =
     try_catch (JSON_stringify obj)
       (\<lambda>e. JSON_stringify (JObj [(''_serializationError'', JStr (js_ToString e))]))"

text \<open>The engine-reported error of a run result: \<open>result?.data?.resultData?.error\<close>.\<close>

definition reportedError :: "jsval \<Rightarrow> jsval" where
  "reportedError result = optProp (optProp (optProp result ''data'') ''resultData'') ''error''"

text \<open>
  The first callback of \<open>cancelable.then\<close> in the workflow-run wrapper. It returns the
  span and what it throws, if it throws. \<open>workflowOutput\<close> stands for the guarded block
  that looks up the last run of the last executed node: the output string it computes,
  or nothing when it finds no items or throws (the \<open>catch\<close> only logs).
\<close>

definition onFulfilled ::
  "bool \<Rightarrow> (jsval \<Rightarrow> string option) \<Rightarrow> (jsval \<Rightarrow> jsval + jsval) \<Rightarrow> jsval \<Rightarrow> jsval \<Rightarrow>
   jsval \<Rightarrow> span \<Rightarrow> span \<times> jsval option" where
  "onFulfilled CAPTURE_IO workflowOutput JSON_stringify workflowId workflowName result sp =
     (let err = reportedError result;
          marked =
            (if truthy err then
               (let sp1 = recordException err sp
                in case errorMessage err of
                     Inl e \<Rightarrow> (sp1, Some e)
                   | Inr msg \<Rightarrow> (setStatus (Error msg) sp1, None))
             else (setStatus Ok sp, None))
      in case marked of
           (sp2, Some e) \<Rightarrow> (sp2, Some e)
         | (sp2, None) \<Rightarrow>
             if CAPTURE_IO then
               (let sp3 =
                      (case workflowOutput result of
                         Some outputStr \<Rightarrow>
                           setAttribute ''output.mime_type'' (JStr ''application/json'')
                             (setAttribute ''output.value'' (JStr outputStr) sp2)
                       | None \<Rightarrow> sp2)
                in if \<not> truthy (attribute sp3 ''input.value'') then
                     (case safeJSONStringify JSON_stringify
                             (JObj [(''workflowId'', workflowId), (''workflowName'', workflowName)]) of
                        Inl e \<Rightarrow> (sp3, Some e)
                      | Inr j \<Rightarrow>
                          (setAttribute ''input.mime_type'' (JStr ''application/json'')
                             (setAttribute ''input.value'' j sp3), None))
                   else (sp3, None))
             else (sp2, None))"

text \<open>The second callback of \<open>cancelable.then\<close>.\<close>

definition onRejected :: "jsval \<Rightarrow> span \<Rightarrow> span \<times> jsval option" where
  "onRejected error sp =
     (let sp1 = recordException error sp
      in case errorMessage error of
           Inl e \<Rightarrow> (sp1, Some e)
         | Inr msg \<Rightarrow> (setStatus (Error msg) sp1, None))"

text \<open>
  The workflow-run wrapper from \<open>tracer.startSpan\<close> on. The wrapped call runs inside
  the span's context; a synchronous throw leaves the wrapper at once. Otherwise the
  callbacks are attached, \<open>finally\<close> ends the span whether or not a callback threw, and
  the caller receives the promise of the wrapped call itself. The result is the span,
  what the caller sees, and what a callback threw (an unhandled rejection).
\<close>

definition processRunExecutionData ::
  "bool \<Rightarrow> (jsval \<Rightarrow> string option) \<Rightarrow> (jsval \<Rightarrow> jsval + jsval) \<Rightarrow> jsval \<Rightarrow> jsval \<Rightarrow>
   string \<Rightarrow> (string \<rightharpoonup> jsval) \<Rightarrow> call_result \<Rightarrow> span \<times> call_result \<times> jsval option" where
  "processRunExecutionData CAPTURE_IO workflowOutput JSON_stringify workflowId workflowName
       workflowSpanName workflowAttributes originalProcessRun =
     (let sp = startSpan workflowSpanName workflowAttributes
      in case originalProcessRun of
           Threw e \<Rightarrow> (sp, Threw e, None)
         | Returned (Resolved result) \<Rightarrow>
             (let (sp1, thrown) =
                    onFulfilled CAPTURE_IO workflowOutput JSON_stringify workflowId workflowName
                      result sp
              in (span_end sp1, Returned (Resolved result), thrown))
         | Returned (Rejected error) \<Rightarrow>
             (let (sp1, thrown) = onRejected error sp
              in (span_end sp1, Returned (Rejected error), thrown)))"




section \<open>Properties of the classifier\<close>

lemma regexTier_trigger:
  "regex_test trigger_pattern l \<Longrightarrow> regexTier REGEX_RULES l = Some ''CHAIN''"
  by (simp add: REGEX_RULES_def)

lemma trigger_nonempty: "regex_test trigger_pattern l \<Longrightarrow> l \<noteq> []"
  by (auto simp: regex_test_def alt_test_def lit_def trigger_pattern_def)

lemma exactTier_miss: "s \<notin> set (concat (map snd sets)) \<Longrightarrow> exactTier sets s = None"
  by (induction sets) auto

lemma exactTier_hit:
  "distinct (concat (map snd sets)) \<Longrightarrow> (k, ids) \<in> set sets \<Longrightarrow> i \<in> set ids \<Longrightarrow>
   exactTier sets i = Some k"
proof (induction sets)
  case Nil
  then show ?case by simp
next
  case (Cons p sets)
  obtain k' ids' where p: "p = (k', ids')" by (cases p)
  show ?case
  proof (cases "i \<in> set ids'")
    case True
    have "(k, ids) \<notin> set sets"
    proof
      assume "(k, ids) \<in> set sets"
      with Cons.prems(3) have "i \<in> (\<Union>q\<in>set sets. set (snd q))" by force
      with True Cons.prems(1) p show False by auto
    qed
    with Cons.prems(2) p have "k = k'" by auto
    with True p show ?thesis by simp
  next
    case False
    with Cons p show ?thesis by auto
  qed
qed

text \<open>No identifier stands in two sets of the table, and none is empty.\<close>

lemma EXACT_SETS_distinct: "distinct (concat (map snd EXACT_SETS))"
  by code_simp

lemma EXACT_SETS_nonempty_ids: "[] \<notin> set (concat (map snd EXACT_SETS))"
  by code_simp

text \<open>
  Claim C1. A step type that is in no set of the exact-match table and whose lower-cased
  form matches both the trigger pattern and the pattern of the LLM rule is classified
  CHAIN, not LLM, whatever the attributes: the trigger rule is the first of the ordered
  rules and the first matching rule decides.
\<close>

theorem classify_trigger_before_llm:
  assumes "s \<notin> set (concat (map snd EXACT_SETS))"
    and "regex_test trigger_pattern (toLowerCase s)"
    and "regex_test llm_pattern (toLowerCase s)"
  shows "mapNodeToSpanKind (JStr s) a = Some ''CHAIN''
         \<and> mapNodeToSpanKind (JStr s) a \<noteq> Some ''LLM''"
proof -
  have "s \<noteq> []" using trigger_nonempty[OF assms(2)] by (auto simp: toLowerCase_def)
  then have "mapNodeToSpanKind (JStr s) a = Some ''CHAIN''"
    using exactTier_miss[OF assms(1)] regexTier_trigger[OF assms(2)]
    by (simp add: mapNodeToSpanKind_def)
  then show ?thesis by simp
qed

theorem classify_trigger_before_llm_witness:
  "''chatTrigger'' \<notin> set (concat (map snd EXACT_SETS))
   \<and> regex_test trigger_pattern (toLowerCase ''chatTrigger'')
   \<and> regex_test llm_pattern (toLowerCase ''chatTrigger'')
   \<and> mapNodeToSpanKind (JStr ''chatTrigger'') JUndefined = Some ''CHAIN''"
proof -
  have a: "''chatTrigger'' \<notin> set (concat (map snd EXACT_SETS))" by code_simp
  have b: "regex_test trigger_pattern (toLowerCase ''chatTrigger'')" by code_simp
  have c: "regex_test llm_pattern (toLowerCase ''chatTrigger'')" by code_simp
  show ?thesis using a b c classify_trigger_before_llm[OF a b c, of JUndefined] by simp
qed

text \<open>
  Claim C4. For every identifier of a set of the exact-match table the classifier returns
  the kind of that set, whatever the attributes and whatever the pattern rules would say.
  The witness is \<open>ToolWorkflow\<close>, recorded as CHAIN, which the pattern tier alone
  would call TOOL.
\<close>

theorem classify_exact_table:
  assumes "(k, ids) \<in> set EXACT_SETS" and "i \<in> set ids"
  shows "mapNodeToSpanKind (JStr i) a = Some k"
proof -
  have "i \<in> set (concat (map snd EXACT_SETS))" using assms by force
  then have "i \<noteq> []" using EXACT_SETS_nonempty_ids by auto
  then show ?thesis
    using exactTier_hit[OF EXACT_SETS_distinct assms] by (simp add: mapNodeToSpanKind_def)
qed

theorem classify_exact_table_witness:
  "(''CHAIN'', the (map_of EXACT_SETS ''CHAIN'')) \<in> set EXACT_SETS
   \<and> ''ToolWorkflow'' \<in> set (the (map_of EXACT_SETS ''CHAIN''))
   \<and> regexTier REGEX_RULES (toLowerCase ''ToolWorkflow'') = Some ''TOOL''
   \<and> mapNodeToSpanKind (JStr ''ToolWorkflow'') JUndefined = Some ''CHAIN''"
proof -
  have a: "(''CHAIN'', the (map_of EXACT_SETS ''CHAIN'')) \<in> set EXACT_SETS" by code_simp
  have b: "''ToolWorkflow'' \<in> set (the (map_of EXACT_SETS ''CHAIN''))" by code_simp
  have c: "regexTier REGEX_RULES (toLowerCase ''ToolWorkflow'') = Some ''TOOL''" by code_simp
  show ?thesis using a b c classify_exact_table[OF a b, of JUndefined] by simp
qed

lemma exactTier_range: "exactTier sets s = Some k \<Longrightarrow> k \<in> fst ` set sets"
  by (induction sets) (auto split: if_splits)

lemma regexTier_range: "regexTier rules s = Some k \<Longrightarrow> k \<in> fst ` set rules"
  by (induction rules) (auto split: if_splits)

lemma categoryFallback_range:
  "categoryFallback t c = Some k \<Longrightarrow> k = ''CHAIN'' \<or> k = ''TOOL''"
  by (auto simp: categoryFallback_def split: if_splits)

lemma exact_kinds: "fst ` set EXACT_SETS \<subseteq> set SPAN_KINDS"
  by (simp add: EXACT_SETS_def SPAN_KINDS_def)

lemma regex_kinds: "fst ` set REGEX_RULES \<subseteq> set SPAN_KINDS"
  by (simp add: REGEX_RULES_def SPAN_KINDS_def)

lemma mapNodeToSpanKind_range:
  assumes "mapNodeToSpanKind t a = Some k"
  shows "k \<in> set SPAN_KINDS"
proof -
  from assms obtain s where t: "t = JStr s"
    by (cases t) (auto simp: mapNodeToSpanKind_def)
  let ?c = "js_or (optProp a ''n8n.node.category'') (optProp a ''n8n.node.category_raw'')"
  from assms t
  consider "exactTier EXACT_SETS s = Some k"
    | "regexTier REGEX_RULES (toLowerCase s) = Some k"
    | "categoryFallback s ?c = Some k"
    by (auto simp: mapNodeToSpanKind_def Let_def split: if_splits option.splits)
  then show ?thesis
  proof cases
    case 1
    then show ?thesis using exactTier_range exact_kinds by blast
  next
    case 2
    then show ?thesis using regexTier_range regex_kinds by blast
  next
    case 3
    then have "k = ''CHAIN'' \<or> k = ''TOOL''" by (rule categoryFallback_range)
    then show ?thesis unfolding SPAN_KINDS_def by (elim disjE) simp_all
  qed
qed

text \<open>
  Claim C3. The classifier is a function of its two arguments with no error result: on
  plain data none of its steps (the string test, set membership, lower-casing, pattern
  tests, optional property reads, the category switch) can throw. For every step type
  and every attribute value its result is no match or one of the ten span kinds, and a
  step type that is absent or not a string gives no match whatever the attributes.
\<close>

theorem classify_total:
  "mapNodeToSpanKind t a \<in> insert None (Some ` set SPAN_KINDS)
   \<and> mapNodeToSpanKind JUndefined a = None
   \<and> mapNodeToSpanKind JNull a = None
   \<and> mapNodeToSpanKind (JBool b) a = None
   \<and> mapNodeToSpanKind (JNum n) a = None
   \<and> mapNodeToSpanKind (JArr xs) a = None
   \<and> mapNodeToSpanKind (JObj ps) a = None
   \<and> mapNodeToSpanKind (JError en em) a = None"
proof -
  have r: "mapNodeToSpanKind t a \<in> insert None (Some ` set SPAN_KINDS)"
    using mapNodeToSpanKind_range[of t a] by (cases "mapNodeToSpanKind t a") auto
  have n: "mapNodeToSpanKind JUndefined a = None" "mapNodeToSpanKind JNull a = None"
    "mapNodeToSpanKind (JBool b) a = None" "mapNodeToSpanKind (JNum n) a = None"
    "mapNodeToSpanKind (JArr xs) a = None" "mapNodeToSpanKind (JObj ps) a = None"
    "mapNodeToSpanKind (JError en em) a = None"
    by (simp_all add: mapNodeToSpanKind_def)
  from r n show ?thesis by blast
qed

text \<open>
  Claim C10. The empty string is a string, yet the first test of the classifier
  (\<open>!nodeType\<close>) rejects it: the result is no match whatever the attributes, also with
  the category \<open>Core Nodes\<close>, for which the category fallback would have answered TOOL;
  the caller then takes CHAIN.
\<close>

theorem classify_empty_type:
  "mapNodeToSpanKind (JStr []) a = None
   \<and> mapNodeToSpanKind (JStr []) (JObj [(''n8n.node.category'', JStr ''Core Nodes'')]) = None
   \<and> nodeSpanKind m (JStr []) a = ''CHAIN''
   \<and> categoryFallback [] (JStr ''Core Nodes'') = Some ''TOOL''"
  by (simp add: mapNodeToSpanKind_def nodeSpanKind_def categoryFallback_def INTERNAL_LOGIC_def)

section \<open>Properties of the truncation\<close>

lemma slice0_nonneg: "0 \<le> e \<Longrightarrow> slice0 s e = take (nat e) s"
  by (simp add: slice0_def)

lemma truncateIO_short: "int (length s) \<le> cap \<Longrightarrow> truncateIO cap (JStr s) = s"
  by (simp add: truncateIO_def)

lemma truncateIO_long:
  "cap < int (length s) \<Longrightarrow> 0 \<le> cap \<Longrightarrow>
   truncateIO cap (JStr s) =
     take (nat cap) s @ ''...[truncated '' @ int_ToString (int (length s) - cap) @ '' chars]''"
  by (simp add: truncateIO_def slice0_nonneg)

lemma digit_value_digit: "d < 10 \<Longrightarrow> digit_value (ascii_digit ! d) = d"
proof -
  assume "d < 10"
  then have "d \<in> {0, 1, 2, 3, 4, 5, 6, 7, 8, 9}" by auto
  then show ?thesis
    by (elim insertE emptyE) (simp_all add: digit_value_def ascii_digit_def upt_rec)
qed

text \<open>The digits written for a number denote that number.\<close>

lemma decimal_value_digits: "decimal_value (digits n) = n"
proof (induction n rule: digits.induct)
  case (1 n)
  show ?case
  proof (cases "n < 10")
    case True
    then show ?thesis
      by (subst digits.simps) (simp add: decimal_value_def digit_value_digit)
  next
    case False
    then have "decimal_value (digits (n div 10)) = n div 10" using 1 by simp
    with False show ?thesis
      by (subst digits.simps) (simp add: decimal_value_def digit_value_digit)
  qed
qed

text \<open>
  Claim C6, as the code has it. A string no longer than the cap is returned unchanged.
  For a cap that is not negative and a string of \<open>cap + k\<close> characters, \<open>k > 0\<close>, the
  result is the first \<open>cap\<close> characters followed by \<open>...[truncated k chars]\<close>, the
  count in decimal; the marker is appended to the \<open>cap\<close> characters kept, so the result
  has \<open>cap + 21\<close> characters and the digits of \<open>k\<close>, more than the cap.
\<close>

theorem truncateIO_amended:
  "(int (length s) \<le> cap \<longrightarrow> truncateIO cap (JStr s) = s)
   \<and> (0 \<le> cap \<and> 0 < k \<and> int (length s) = cap + k \<longrightarrow>
        truncateIO cap (JStr s)
          = take (nat cap) s @ ''...[truncated '' @ int_ToString k @ '' chars]''
        \<and> decimal_value (int_ToString k) = nat k
        \<and> int (length (truncateIO cap (JStr s))) = cap + 21 + int (length (int_ToString k))
        \<and> cap < int (length (truncateIO cap (JStr s))))"
proof (intro conjI impI)
  assume "int (length s) \<le> cap"
  then show "truncateIO cap (JStr s) = s" by (rule truncateIO_short)
next
  assume h: "0 \<le> cap \<and> 0 < k \<and> int (length s) = cap + k"
  then have eq: "truncateIO cap (JStr s) =
      take (nat cap) s @ ''...[truncated '' @ int_ToString k @ '' chars]''"
    using truncateIO_long[of cap s] by simp
  then show "truncateIO cap (JStr s) =
      take (nat cap) s @ ''...[truncated '' @ int_ToString k @ '' chars]''" .
  from h show "decimal_value (int_ToString k) = nat k"
    by (simp add: int_ToString_def decimal_value_digits)
  from h have "nat cap \<le> length s" by linarith
  then have "length (take (nat cap) s) = nat cap" by simp
  with eq h show len:
    "int (length (truncateIO cap (JStr s))) = cap + 21 + int (length (int_ToString k))"
    by simp
  then show "cap < int (length (truncateIO cap (JStr s)))" by simp
qed

theorem truncateIO_amended_witness:
  "int (length ''abcde'') \<le> 5 \<and> truncateIO 5 (JStr ''abcde'') = ''abcde''
   \<and> (0::int) \<le> 5 \<and> (0::int) < 3 \<and> int (length ''abcdefgh'') = 5 + 3
   \<and> truncateIO 5 (JStr ''abcdefgh'') = ''abcde...[truncated 3 chars]''"
proof -
  have a: "int (length ''abcde'') \<le> 5" by simp
  have b: "(0::int) \<le> 5 \<and> (0::int) < 3 \<and> int (length ''abcdefgh'') = 5 + 3" by simp
  have d: "int_ToString 3 = ''3''" by code_simp
  show ?thesis
    using a b d truncateIO_amended[of "''abcde''" 5 3] truncateIO_amended[of "''abcdefgh''" 5 3]
    by simp
qed

text \<open>
  Claim C6 as stated fails: with a cap of 5, the eight characters \<open>abcdefgh\<close> are stored
  as 27 characters, more than the cap.
\<close>

theorem truncateIO_exceeds_cap:
  "truncateIO 5 (JStr ''abcdefgh'') = ''abcde...[truncated 3 chars]''
   \<and> \<not> int (length (truncateIO 5 (JStr ''abcdefgh''))) \<le> 5"
  by code_simp

section \<open>Properties of the segment sanitization\<close>


lemma hyphen_not_space: "\<not> is_space CHR ''-''"
  by (simp add: is_space_def)

lemma replace_other_chars_length: "length (replace_other_chars s) = length s"
  by (simp add: replace_other_chars_def)


lemma replace_other_chars_fixed:
  "i < length s \<Longrightarrow> segment_char (s ! i) \<Longrightarrow> replace_other_chars s ! i = s ! i"
  by (simp add: replace_other_chars_def)

lemma replace_other_chars_hyphen:
  "i < length s \<Longrightarrow> \<not> segment_char (s ! i) \<Longrightarrow> replace_other_chars s ! i = CHR ''-''"
  by (simp add: replace_other_chars_def)

text \<open>What the two steps on white space do: no white space is left, a string without any is
  unchanged, and a run between other characters becomes one hyphen.\<close>

lemma replace_space_runs_no_space: "c \<in> set (replace_space_runs s) \<Longrightarrow> \<not> is_space c"
  by (induction s rule: replace_space_runs.induct) (auto simp: hyphen_not_space split: if_splits)

lemma replace_space_runs_id: "\<forall>c\<in>set u. \<not> is_space c \<Longrightarrow> replace_space_runs u = u"
  by (induction u) auto

lemma replace_space_runs_run:
  assumes "\<forall>c\<in>set u. \<not> is_space c" and "w \<noteq> []" and "\<forall>c\<in>set w. is_space c"
    and "r = [] \<or> \<not> is_space (hd r)"
  shows "replace_space_runs (u @ w @ r) = u @ CHR ''-'' # replace_space_runs r"
using assms(1)
proof (induction u)
  case Nil
  from assms(2) obtain c w' where w: "w = c # w'" by (cases w) auto
  have "dropWhile is_space (w' @ r) = r"
    using assms(3,4) w by (cases r) (auto simp: dropWhile_append)
  with w assms(3) show ?case by simp
next
  case (Cons a u)
  then show ?case by simp
qed

text \<open>\<open>trim\<close> removes white space at both ends and nothing else.\<close>

lemma trim_decompose:
  "\<exists>pre post. s = pre @ trim s @ post \<and> (\<forall>c\<in>set pre. is_space c) \<and> (\<forall>c\<in>set post. is_space c)"
proof -
  let ?a = "takeWhile is_space s" and ?m = "dropWhile is_space s"
  let ?b = "rev (takeWhile is_space (rev ?m))"
  have 1: "s = ?a @ ?m" by simp
  have "rev ?m = takeWhile is_space (rev ?m) @ dropWhile is_space (rev ?m)" by simp
  then have "?m = rev (dropWhile is_space (rev ?m)) @ ?b"
    by (metis rev_append rev_rev_ident)
  then have 2: "?m = trim s @ ?b" by (simp add: trim_def)
  have 3: "\<forall>c\<in>set ?a. is_space c" by (auto dest: set_takeWhileD)
  have 4: "\<forall>c\<in>set ?b. is_space c" by (auto dest: set_takeWhileD)
  from 1 2 have "s = ?a @ trim s @ ?b" by simp
  with 3 4 show ?thesis by blast
qed

lemma trim_ends:
  assumes "trim s \<noteq> []"
  shows "\<not> is_space (hd (trim s)) \<and> \<not> is_space (last (trim s))"
proof -
  let ?m = "dropWhile is_space s"
  let ?d = "dropWhile is_space (rev ?m)"
  from assms have d: "?d \<noteq> []" by (simp add: trim_def)
  then have h: "\<not> is_space (hd ?d)" by (rule hd_dropWhile)
  have l: "last (trim s) = hd ?d" using d by (simp add: trim_def last_rev)
  have m: "?m \<noteq> []"
  proof
    assume e: "?m = []"
    have "?d = []" unfolding e by simp
    with d show False by simp
  qed
  then have hm: "\<not> is_space (hd ?m)" by (rule hd_dropWhile)
  have "?m = rev ?d @ rev (takeWhile is_space (rev ?m))"
    by (metis rev_append rev_rev_ident takeWhile_dropWhile_id)
  then have "hd ?m = hd (rev ?d)" using d by (metis hd_append2 rev_is_Nil_conv)
  with hm have "\<not> is_space (hd (trim s))" by (simp add: trim_def)
  with h l show ?thesis by simp
qed




section \<open>Properties of the payload extractors\<close>








lemma push_items_records:
  "push_items (map (\<lambda>r. JObj [(''json'', JObj r)]) records) acc = acc @ map JObj records"
  by (induction records arbitrary: acc) (simp_all add: optProp_def)

lemma input_connections_slots:
  "input_connections (map slot_value slots) acc = Inr (acc @ concat (map slot_records slots))"
proof (induction slots arbitrary: acc)
  case Nil
  then show ?case by simp
next
  case (Cons slot slots)
  show ?case
  proof (cases slot)
    case None
    then show ?thesis using Cons by (simp add: slot_value_def slot_records_def)
  next
    case (Some records)
    then show ?thesis using Cons by (simp add: slot_value_def slot_records_def push_items_records)
  qed
qed

lemma main_of_executionData:
  "optProp (optProp (executionData_of conns) ''data'') ''main'' =
     (case map_of conns ''main'' of None \<Rightarrow> JUndefined | Some slots \<Rightarrow> JArr (map slot_value slots))"
  by (simp add: executionData_of_def optProp_def map_of_map split: option.splits)

lemma unwrap_single_cases:
  "(if length xs = 0 then Inr JUndefined else if length xs = 1 then Inr (hd xs) else Inr (JArr xs))
   = (Inr (unwrap_single xs) :: jsval + jsval)"
  by (cases xs; cases "tl xs") (auto simp: unwrap_single_def split: list.splits)

lemma extractNodeInput_body_main:
  "extractNodeInput_body (executionData_of conns) = Inr (unwrap_single (main_records conns))"
proof (cases "map_of conns ''main''")
  case None
  then show ?thesis
    by (simp add: extractNodeInput_body_def main_of_executionData main_records_def unwrap_single_def)
next
  case (Some slots)
  show ?thesis
  proof (cases "slots = []")
    case True
    with Some show ?thesis
      by (simp add: extractNodeInput_body_def main_of_executionData main_records_def unwrap_single_def)
  next
    case False
    obtain xs where xs: "concat (map slot_records slots) = xs" by simp
    have body: "extractNodeInput_body (executionData_of conns) =
        (if length xs = 0 then Inr JUndefined
         else if length xs = 1 then Inr (hd xs) else Inr (JArr xs))"
      using Some False
      by (simp add: extractNodeInput_body_def main_of_executionData input_connections_slots xs
          del: One_nat_def)
    have "main_records conns = xs" using Some xs by (simp add: main_records_def)
    with body show ?thesis by (simp only: unwrap_single_cases)
  qed
qed

text \<open>
  Claim C7, as the code has it. Of the connections structure only the connection named
  \<open>main\<close> is read: the records of its slots, absent slots skipped, are collected in
  order; one record is returned as it is, several as a sequence, and no value when there
  is none (no \<open>main\<close>, no slot, only empty slots) or the input is absent.
\<close>

theorem extractNodeInput_amended:
  "extractNodeInputFromExecutionData (executionData_of conns)
     = Inr (unwrap_single (main_records conns))
   \<and> extractNodeInputFromExecutionData JUndefined = Inr JUndefined
   \<and> extractNodeInputFromExecutionData JNull = Inr JUndefined
   \<and> extractNodeInputFromExecutionData (executionData_of []) = Inr JUndefined
   \<and> extractNodeInputFromExecutionData (executionData_of [(''main'', [])]) = Inr JUndefined
   \<and> extractNodeInputFromExecutionData (executionData_of [(''main'', [Some [], None])]) = Inr JUndefined"
proof -
  have m: "\<And>c. extractNodeInputFromExecutionData (executionData_of c)
     = Inr (unwrap_single (main_records c))"
    by (simp add: extractNodeInputFromExecutionData_def try_catch_def extractNodeInput_body_main)
  have u: "extractNodeInputFromExecutionData JUndefined = Inr JUndefined"
    "extractNodeInputFromExecutionData JNull = Inr JUndefined"
    by (simp_all add: extractNodeInputFromExecutionData_def try_catch_def extractNodeInput_body_def
        optProp_def)
  show ?thesis
    by (simp add: m u main_records_def unwrap_single_def slot_records_def)
qed

theorem extractNodeInput_amended_witness:
  "main_records [(''main'', [Some [[(''a'', JNum 1)]], None, Some [[(''b'', JNum 2)], []]]),
                 (''ai_tool'', [Some [[(''c'', JNum 3)]]])]
     = [JObj [(''a'', JNum 1)], JObj [(''b'', JNum 2)], JObj []]
   \<and> extractNodeInputFromExecutionData
       (executionData_of
          [(''main'', [Some [[(''a'', JNum 1)]], None, Some [[(''b'', JNum 2)], []]]),
           (''ai_tool'', [Some [[(''c'', JNum 3)]]])])
     = Inr (JArr [JObj [(''a'', JNum 1)], JObj [(''b'', JNum 2)], JObj []])"
proof -
  have a: "main_records [(''main'', [Some [[(''a'', JNum 1)]], None, Some [[(''b'', JNum 2)], []]]),
                 (''ai_tool'', [Some [[(''c'', JNum 3)]]])]
     = [JObj [(''a'', JNum 1)], JObj [(''b'', JNum 2)], JObj []]" by code_simp
  show ?thesis
    using a extractNodeInput_amended[of
        "[(''main'', [Some [[(''a'', JNum 1)]], None, Some [[(''b'', JNum 2)], []]]),
          (''ai_tool'', [Some [[(''c'', JNum 3)]]])]"]
    by (simp add: unwrap_single_def)
qed

text \<open>
  Claim C7 as stated fails: a record on a connection other than \<open>main\<close> is not
  collected. With one record on \<open>main\<close> and one on \<open>ai_tool\<close> the code returns the
  first alone, where every record across every connection would be both.
\<close>

theorem extractNodeInput_reads_main_only:
  "extractNodeInputFromExecutionData
     (executionData_of [(''main'', [Some [[(''a'', JNum 1)]]]), (''ai_tool'', [Some [[(''b'', JNum 2)]]])])
     = Inr (JObj [(''a'', JNum 1)])
   \<and> extractNodeInput_spec
     [(''main'', [Some [[(''a'', JNum 1)]]]), (''ai_tool'', [Some [[(''b'', JNum 2)]]])]
     = JArr [JObj [(''a'', JNum 1)], JObj [(''b'', JNum 2)]]"
  by code_simp

section \<open>Properties of the initialization guard\<close>

lemma load_module_skip: "ALREADY_INITIALIZED st \<Longrightarrow> load_module h st = (st, None)"
  by (simp add: load_module_def)

lemma any_signal:
  "truthy (global_n8nTracingInitialized st) \<or> env_N8N_TRACING_INITIALIZED st = Some ''true''
     \<or> truthy (process_n8nOtelSDKStarted st) \<Longrightarrow> ALREADY_INITIALIZED st"
  by (auto simp: ALREADY_INITIALIZED_def js_or_def)

text \<open>\<open>initializeTracing\<close> leaves the three flags as it finds them, however it ends.\<close>

lemma initializeTracing_flags:
  "global_n8nTracingInitialized (fst (initializeTracing h st)) = global_n8nTracingInitialized st
   \<and> env_N8N_TRACING_INITIALIZED (fst (initializeTracing h st)) = env_N8N_TRACING_INITIALIZED st
   \<and> process_n8nOtelSDKStarted (fst (initializeTracing h st)) = process_n8nOtelSDKStarted st"
  by (simp add: initializeTracing_def setupN8nOpenTelemetry_def Let_def
      split: option.splits sum.splits)

lemma getEnv_log_level:
  "(\<exists>e. getEnv v ''TRACING_LOG_LEVEL'' ''info'' True = Inl e) \<longleftrightarrow> v = Some []"
  by (cases v) (auto simp: getEnv_def)

text \<open>It installs the wrappers once or not at all, as the surroundings allow.\<close>

lemma initializeTracing_installs:
  "wrapper_installations (fst (initializeTracing h st))
     = wrapper_installations st + (if reaches_installation h then 1 else 0)"
proof (cases "env_TRACING_LOG_LEVEL h = Some []")
  case True
  then show ?thesis
    by (simp add: initializeTracing_def reaches_installation_def getEnv_def split: option.splits)
next
  case False
  then obtain l where "getEnv (env_TRACING_LOG_LEVEL h) ''TRACING_LOG_LEVEL'' ''info'' True = Inr l"
    using getEnv_log_level[of "env_TRACING_LOG_LEVEL h"]
    by (cases "getEnv (env_TRACING_LOG_LEVEL h) ''TRACING_LOG_LEVEL'' ''info'' True") auto
  with False show ?thesis
    by (simp add: initializeTracing_def reaches_installation_def setupN8nOpenTelemetry_def Let_def
        split: option.splits)
qed

lemma load_module_marks: "ALREADY_INITIALIZED (fst (load_module h st))"
proof (cases "ALREADY_INITIALIZED st")
  case True
  then show ?thesis by (simp add: load_module_def)
next
  case False
  then show ?thesis
    using initializeTracing_flags[of h "st\<lparr>global_n8nTracingInitialized := JBool True,
                 env_N8N_TRACING_INITIALIZED := Some ''true'',
                 process_n8nOtelSDKStarted := JBool True\<rparr>"]
    by (simp add: load_module_def ALREADY_INITIALIZED_def js_or_def)
qed

lemma load_all_skip: "ALREADY_INITIALIZED st \<Longrightarrow> load_all hs st = st"
  by (induction hs) (simp_all add: load_module_skip)

lemma load_all_first: "load_all (h # hs) st = fst (load_module h st)"
  by (simp add: load_all_skip load_module_marks)

lemma load_module_installs:
  "\<not> ALREADY_INITIALIZED st \<Longrightarrow>
   wrapper_installations (fst (load_module h st))
     = wrapper_installations st + (if reaches_installation h then 1 else 0)"
  using initializeTracing_installs[of h "st\<lparr>global_n8nTracingInitialized := JBool True,
                 env_N8N_TRACING_INITIALIZED := Some ''true'',
                 process_n8nOtelSDKStarted := JBool True\<rparr>"]
  by (simp add: load_module_def)

lemma fresh_not_initialized: "\<not> ALREADY_INITIALIZED fresh_process"
  by (simp add: ALREADY_INITIALIZED_def fresh_process_def js_or_def)

text \<open>
  Claim C9, as the code has it. A load after a first load changes nothing and throws
  nothing, whatever the surroundings of either. Any one of the three signals, found
  set, makes a load a no-op. A load that finds none set sets all three, the flag on
  \<open>global\<close> and the environment variable among them, before it initializes, so they
  stay set however the initialization ends. Over any number of loads the wrappers are
  installed once if the initialization of the first load gets as far as installing them
  and not at all otherwise: at most once in a fresh process.
\<close>

theorem guard_installs_at_most_once:
  "load_module h2 (fst (load_module h1 st)) = (fst (load_module h1 st), None)
   \<and> (truthy (global_n8nTracingInitialized st) \<or> env_N8N_TRACING_INITIALIZED st = Some ''true''
        \<or> truthy (process_n8nOtelSDKStarted st) \<longrightarrow> load_module h st = (st, None))
   \<and> (\<not> ALREADY_INITIALIZED st \<longrightarrow>
        global_n8nTracingInitialized (fst (load_module h st)) = JBool True
        \<and> env_N8N_TRACING_INITIALIZED (fst (load_module h st)) = Some ''true''
        \<and> process_n8nOtelSDKStarted (fst (load_module h st)) = JBool True
        \<and> wrapper_installations (load_all (h # hs) st)
            = wrapper_installations st + (if reaches_installation h then 1 else 0))
   \<and> wrapper_installations (load_all (h # hs) fresh_process)
        = (if reaches_installation h then 1 else 0)
   \<and> wrapper_installations (load_all hs fresh_process) \<le> 1"
proof (intro conjI impI)
  show "load_module h2 (fst (load_module h1 st)) = (fst (load_module h1 st), None)"
    by (rule load_module_skip) (rule load_module_marks)
  show "load_module h st = (st, None)"
    if "truthy (global_n8nTracingInitialized st) \<or> env_N8N_TRACING_INITIALIZED st = Some ''true''
        \<or> truthy (process_n8nOtelSDKStarted st)"
    using that by (intro load_module_skip any_signal)
  show f: "wrapper_installations (load_all (h # hs) fresh_process)
        = (if reaches_installation h then 1 else 0)" for h hs
    using load_module_installs[OF fresh_not_initialized, of h]
    by (simp only: load_all_first) (simp add: fresh_process_def)
  show "wrapper_installations (load_all hs fresh_process) \<le> 1"
  proof (cases hs)
    case Nil
    then show ?thesis by (simp add: fresh_process_def)
  next
    case (Cons a as)
    then show ?thesis using f[of a as] by simp
  qed
next
  assume n: "\<not> ALREADY_INITIALIZED st"
  let ?st = "st\<lparr>global_n8nTracingInitialized := JBool True,
                 env_N8N_TRACING_INITIALIZED := Some ''true'',
                 process_n8nOtelSDKStarted := JBool True\<rparr>"
  from n show "global_n8nTracingInitialized (fst (load_module h st)) = JBool True"
    "env_N8N_TRACING_INITIALIZED (fst (load_module h st)) = Some ''true''"
    "process_n8nOtelSDKStarted (fst (load_module h st)) = JBool True"
    using initializeTracing_flags[of h ?st] by (simp_all add: load_module_def)
  from n show "wrapper_installations (load_all (h # hs) st)
            = wrapper_installations st + (if reaches_installation h then 1 else 0)"
    by (simp only: load_all_first) (rule load_module_installs)
qed

theorem guard_installs_at_most_once_witness:
  "\<not> ALREADY_INITIALIZED fresh_process
   \<and> reaches_installation working_host
   \<and> wrapper_installations (load_all [working_host, working_host, working_host] fresh_process) = 1
   \<and> env_N8N_TRACING_INITIALIZED (fst (load_module working_host fresh_process)) = Some ''true''
   \<and> global_n8nTracingInitialized (fst (load_module working_host fresh_process)) = JBool True
   \<and> env_N8N_TRACING_INITIALIZED (fresh_process\<lparr>env_N8N_TRACING_INITIALIZED := Some ''true''\<rparr>)
       = Some ''true''
   \<and> load_module working_host (fresh_process\<lparr>env_N8N_TRACING_INITIALIZED := Some ''true''\<rparr>)
       = (fresh_process\<lparr>env_N8N_TRACING_INITIALIZED := Some ''true''\<rparr>, None)"
proof -
  have a: "\<not> ALREADY_INITIALIZED fresh_process" by (rule fresh_not_initialized)
  have b: "env_N8N_TRACING_INITIALIZED (fresh_process\<lparr>env_N8N_TRACING_INITIALIZED := Some ''true''\<rparr>)
       = Some ''true''" by simp
  have c: "reaches_installation working_host"
    by (simp add: reaches_installation_def working_host_def)
  show ?thesis
    using a b c
      guard_installs_at_most_once[where st = fresh_process and h = working_host
        and hs = "[working_host, working_host]"]
      guard_installs_at_most_once[where
        st = "fresh_process\<lparr>env_N8N_TRACING_INITIALIZED := Some ''true''\<rparr>"
        and h = working_host]
    by (simp del: load_all.simps)
qed

text \<open>
  Claim C9 as stated fails: the wrappers are not installed exactly once in every process.
  With \<open>TRACING_LOG_LEVEL\<close> set to the empty string the first load sets the flags and
  throws in \<open>getEnv\<close> before any wrapper is installed, and later loads, in working
  surroundings too, are no-ops; when \<open>n8n-core\<close> cannot be required the first load
  completes with nothing installed. Either way the flags are set and the number of
  installations stays zero.
\<close>

theorem guard_flags_set_nothing_installed:
  "snd (load_module (working_host\<lparr>env_TRACING_LOG_LEVEL := Some []\<rparr>) fresh_process)
     = Some (JError ''Error'' ''Required environment variable TRACING_LOG_LEVEL is not set'')
   \<and> ALREADY_INITIALIZED
        (fst (load_module (working_host\<lparr>env_TRACING_LOG_LEVEL := Some []\<rparr>) fresh_process))
   \<and> wrapper_installations
        (load_all [working_host\<lparr>env_TRACING_LOG_LEVEL := Some []\<rparr>, working_host, working_host]
           fresh_process) = 0
   \<and> snd (load_module
        (working_host\<lparr>require_n8n_core := Some (JError ''Error'' ''Cannot find module n8n-core'')\<rparr>)
        fresh_process) = None
   \<and> wrapper_installations
        (load_all
           [working_host\<lparr>require_n8n_core := Some (JError ''Error'' ''Cannot find module n8n-core'')\<rparr>,
            working_host]
           fresh_process) = 0"
  by code_simp

section \<open>Properties of the span lifecycle\<close>




lemma truthy_defined: "truthy e \<Longrightarrow> e \<noteq> JUndefined \<and> e \<noteq> JNull"
  by auto













text \<open>
  The workflow-run wrapper calls the wrapped function outside any \<open>try\<close>: when that
  call throws instead of returning a promise, the started span is not ended.
\<close>

lemma processRun_synchronous_throw:
  "processRunExecutionData c w j wid wn nm at (Threw e) = (startSpan nm at, Threw e, None)
   \<and> endCount (startSpan nm at) = 0"
  by (simp add: processRunExecutionData_def startSpan_def)

end
